theory Spec2Isabelle
  imports Complex_Main "HOL-Library.AList"
begin

section \<open>Python values used by producer.py\<close>

text \<open>
  The producer computes with Python floats. A float is modelled as a real number or one
  of the three special values of IEEE 754: the special values decide what comparisons and
  \<open>max\<close> return, so they are part of the model. Finite arithmetic is exact: the
  rounding error of a double, underflow and the sign of zero are not modelled; overflow
  to an infinity is modelled where the driver divides.
\<close>

datatype pyfloat = Fin real | PInf | NInf | NaN

datatype py_error = ZeroDivisionError | ValueError | OverflowError | IndexError | KeyError

fun fadd :: "pyfloat \<Rightarrow> pyfloat \<Rightarrow> pyfloat" where
  "fadd (Fin x) (Fin y) = Fin (x + y)"
| "fadd (Fin x) PInf = PInf"
| "fadd (Fin x) NInf = NInf"
| "fadd PInf (Fin y) = PInf"
| "fadd PInf PInf = PInf"
| "fadd PInf NInf = NaN"
| "fadd NInf (Fin y) = NInf"
| "fadd NInf PInf = NaN"
| "fadd NInf NInf = NInf"
| "fadd NaN b = NaN"
| "fadd a NaN = NaN"

fun fmul :: "pyfloat \<Rightarrow> pyfloat \<Rightarrow> pyfloat" where
  "fmul (Fin x) (Fin y) = Fin (x * y)"
| "fmul (Fin x) PInf = (if x = 0 then NaN else if 0 < x then PInf else NInf)"
| "fmul (Fin x) NInf = (if x = 0 then NaN else if 0 < x then NInf else PInf)"
| "fmul PInf (Fin y) = (if y = 0 then NaN else if 0 < y then PInf else NInf)"
| "fmul NInf (Fin y) = (if y = 0 then NaN else if 0 < y then NInf else PInf)"
| "fmul PInf PInf = PInf"
| "fmul PInf NInf = NInf"
| "fmul NInf PInf = NInf"
| "fmul NInf NInf = PInf"
| "fmul NaN b = NaN"
| "fmul a NaN = NaN"

text \<open>\<open>a < b\<close> on floats: every comparison with NaN is false.\<close>

fun flt :: "pyfloat \<Rightarrow> pyfloat \<Rightarrow> bool" where
  "flt (Fin x) (Fin y) = (x < y)"
| "flt (Fin x) PInf = True"
| "flt (Fin x) NInf = False"
| "flt PInf b = False"
| "flt NInf (Fin y) = True"
| "flt NInf PInf = True"
| "flt NInf NInf = False"
| "flt NaN b = False"
| "flt a NaN = False"

text \<open>\<open>a <= b\<close> on floats.\<close>

fun fle :: "pyfloat \<Rightarrow> pyfloat \<Rightarrow> bool" where
  "fle (Fin x) (Fin y) = (x \<le> y)"
| "fle (Fin x) PInf = True"
| "fle (Fin x) NInf = False"
| "fle PInf (Fin y) = False"
| "fle PInf PInf = True"
| "fle PInf NInf = False"
| "fle NInf b = (b \<noteq> NaN)"
| "fle NaN b = False"
| "fle a NaN = False"

text \<open>
  The builtin \<open>max(a, b)\<close> keeps its first argument unless the second compares
  greater (\<open>b > a\<close>); with a NaN first argument no second argument compares greater.
\<close>

definition py_max :: "pyfloat \<Rightarrow> pyfloat \<Rightarrow> pyfloat" where
  "py_max a b = (if flt a b then b else a)"

text \<open>
  \<open>round(x, 8)\<close>: the multiple of \<open>10^-8\<close> nearest to \<open>x\<close>, a tie going to the
  even multiple; with a number of digits given, NaN and the infinities are returned
  unchanged and nothing is raised. Python returns the double nearest to that multiple;
  the model keeps the multiple itself.
\<close>

definition round_half_even :: "real \<Rightarrow> int" where
  "round_half_even x =
     (let f = \<lfloor>x\<rfloor>; d = x - of_int f
      in if d < 1 / 2 then f
         else if 1 / 2 < d then f + 1
         else if even f then f else f + 1)"

fun py_round :: "pyfloat \<Rightarrow> nat \<Rightarrow> pyfloat" where
  "py_round (Fin x) n = Fin (of_int (round_half_even (x * 10 ^ n)) / 10 ^ n)"
| "py_round PInf n = PInf"
| "py_round NInf n = NInf"
| "py_round NaN n = NaN"

section \<open>The random module and the clock\<close>

text \<open>
  The functions of Python's \<open>random\<close> module that the producer calls are parameters of
  the model: each takes the generator's state and returns the draw with the next state.
  \<open>choice\<close> is given a non-empty sequence (the empty one is handled by
  \<open>py_choice\<close> below).
\<close>

record 'r random_module =
  gauss :: "pyfloat \<Rightarrow> pyfloat \<Rightarrow> 'r \<Rightarrow> pyfloat \<times> 'r"
  lognormvariate :: "pyfloat \<Rightarrow> pyfloat \<Rightarrow> 'r \<Rightarrow> pyfloat \<times> 'r"
  choice :: "string list \<Rightarrow> 'r \<Rightarrow> string \<times> 'r"
  randint :: "int \<Rightarrow> int \<Rightarrow> 'r \<Rightarrow> int \<times> 'r"
  uniform :: "pyfloat \<Rightarrow> pyfloat \<Rightarrow> 'r \<Rightarrow> pyfloat \<times> 'r"

text \<open>\<open>random.choice(seq)\<close> raises IndexError on an empty sequence.\<close>

definition py_choice :: "'r random_module \<Rightarrow> string list \<Rightarrow> 'r \<Rightarrow> py_error + (string \<times> 'r)" where
  "py_choice rm seq r = (if seq = [] then Inl IndexError else Inr (choice rm seq r))"

section \<open>PriceSimulator\<close>

record PriceSimulator =
  symbol :: string
  price :: pyfloat
  volatility :: pyfloat
  trade_id :: int

text \<open>The dictionary that \<open>next_trade\<close> returns, one field per key.\<close>

record trade =
  rec_exchange_time :: string
  rec_symbol :: string
  rec_price :: pyfloat
  rec_volume :: pyfloat
  rec_trade_id :: int
  rec_side :: string

definition default_volatility :: pyfloat where
  "default_volatility = Fin (2 / 10000)"

text \<open>\<open>PriceSimulator.__init__\<close>: the trade id starts at \<open>random.randint(1000000, 9999999)\<close>.\<close>

definition PriceSimulator_init ::
  "'r random_module \<Rightarrow> string \<Rightarrow> pyfloat \<Rightarrow> pyfloat \<Rightarrow> 'r \<Rightarrow> PriceSimulator \<times> 'r" where
  "PriceSimulator_init rm sy initial_price vol r =
     (let (tid, r1) = randint rm 1000000 9999999 r
      in (\<lparr>symbol = sy, price = initial_price, volatility = vol, trade_id = tid\<rparr>, r1))"

text \<open>
  \<open>PriceSimulator.next_trade\<close>. \<open>now\<close> is the clock's reading, already formatted
  (\<open>datetime.utcnow().strftime(...)[:-3]\<close>). The result is the returned dictionary, the
  mutated simulator and the generator's next state.
\<close>

definition next_trade ::
  "'r random_module \<Rightarrow> string \<Rightarrow> PriceSimulator \<Rightarrow> 'r \<Rightarrow> py_error + (trade \<times> PriceSimulator \<times> 'r)" where
  "next_trade rm now self r =
     (let (change, r1) = gauss rm (Fin 0) (volatility self) r;
          self1 = self\<lparr>price := fmul (price self) (fadd (Fin 1) change)\<rparr>;
          self2 = self1\<lparr>price := py_max (price self1) (Fin (1 / 10000))\<rparr>;
          (lv, r2) = lognormvariate rm (Fin 0) (Fin 1) r1;
          volume = fmul lv (Fin (1 / 10))
      in case py_choice rm [''buy'', ''sell''] r2 of
           Inl e \<Rightarrow> Inl e
         | Inr (sd, r3) \<Rightarrow>
             let self3 = self2\<lparr>trade_id := trade_id self2 + 1\<rparr>
             in Inr (\<lparr>rec_exchange_time = now,
                      rec_symbol = symbol self3,
                      rec_price = py_round (price self3) 8,
                      rec_volume = py_round volume 8,
                      rec_trade_id = trade_id self3,
                      rec_side = sd\<rparr>, self3, r3))"

text \<open>
  Successive calls of \<open>next_trade\<close> on one simulator, one clock reading per call: the
  records in the order they are returned, the simulator and the generator afterwards.
\<close>

fun run_trades ::
  "'r random_module \<Rightarrow> string list \<Rightarrow> PriceSimulator \<Rightarrow> 'r \<Rightarrow> py_error + (trade list \<times> PriceSimulator \<times> 'r)" where
  "run_trades rm [] self r = Inr ([], self, r)"
| "run_trades rm (now # nows) self r =
     (case next_trade rm now self r of
        Inl e \<Rightarrow> Inl e
      | Inr (tr, self1, r1) \<Rightarrow>
          (case run_trades rm nows self1 r1 of
             Inl e \<Rightarrow> Inl e
           | Inr (trs, self2, r2) \<Rightarrow> Inr (tr # trs, self2, r2)))"

text \<open>The (price, volume, side) part of a record.\<close>

definition pvs :: "trade \<Rightarrow> pyfloat \<times> pyfloat \<times> string" where
  "pvs tr = (rec_price tr, rec_volume tr, rec_side tr)"

section \<open>create_simulators\<close>

definition initial_prices :: "(string \<times> pyfloat) list" where
  "initial_prices =
     [(''BTC/USD'', Fin 45000),
      (''ETH/USD'', Fin 2500),
      (''SOL/USD'', Fin 100),
      (''DOGE/USD'', Fin (8 / 100)),
      (''XRP/USD'', Fin (55 / 100)),
      (''ADA/USD'', Fin (45 / 100))]"

text \<open>
  The loop of \<open>create_simulators\<close>. The default of \<open>dict.get\<close> is an argument, so
  \<open>random.uniform(10, 1000)\<close> is drawn for every symbol, also for one that is in the
  table. A dictionary keeps a key at the place of its first insertion, as
  \<open>AList.update\<close> does.
\<close>

fun create_simulators_loop ::
  "'r random_module \<Rightarrow> string list \<Rightarrow> (string \<times> PriceSimulator) list \<Rightarrow> 'r
     \<Rightarrow> (string \<times> PriceSimulator) list \<times> 'r" where
  "create_simulators_loop rm [] simulators r = (simulators, r)"
| "create_simulators_loop rm (s # symbols) simulators r =
     (let (u, r1) = uniform rm (Fin 10) (Fin 1000) r;
          p = (case map_of initial_prices s of Some v \<Rightarrow> v | None \<Rightarrow> u);
          (sim, r2) = PriceSimulator_init rm s p default_volatility r1
      in create_simulators_loop rm symbols (AList.update s sim simulators) r2)"

definition create_simulators ::
  "'r random_module \<Rightarrow> string list \<Rightarrow> 'r \<Rightarrow> (string \<times> PriceSimulator) list \<times> 'r" where
  "create_simulators rm symbols r = create_simulators_loop rm symbols [] r"

section \<open>What the random module promises\<close>

text \<open>
  The documented results of the library functions, as predicates on the parameter:
  \<open>randint(a, b)\<close> lies in \<open>[a, b]\<close>, \<open>uniform(a, b)\<close> lies between \<open>a\<close> and
  \<open>b\<close>, \<open>choice(seq)\<close> is an element of \<open>seq\<close>.
\<close>

definition randint_in_range :: "'r random_module \<Rightarrow> bool" where
  "randint_in_range rm =
     (\<forall>a b r. a \<le> b \<longrightarrow> a \<le> fst (randint rm a b r) \<and> fst (randint rm a b r) \<le> b)"

definition uniform_in_range :: "'r random_module \<Rightarrow> bool" where
  "uniform_in_range rm =
     (\<forall>a b r. a \<le> b \<longrightarrow>
        (\<exists>x. fst (uniform rm (Fin a) (Fin b) r) = Fin x \<and> a \<le> x \<and> x \<le> b))"


text \<open>
  \<open>lognormvariate(0, 1)\<close> is \<open>exp(z)\<close> for a standard normal deviate \<open>z\<close>. The
  generator of CPython accepts a deviate only when \<open>z * z / 4 <= -log(u)\<close> for a uniform
  \<open>u\<close> that is a multiple of \<open>2^-53\<close> in \<open>(0, 1]\<close>, so that
  \<open>|z| <= 2 * sqrt(53 * ln 2)\<close>, which is below 13. The predicate keeps the lower end.
\<close>

definition lognormvariate_reach :: "'r random_module \<Rightarrow> bool" where
  "lognormvariate_reach rm =
     (\<forall>r. \<exists>z. fst (lognormvariate rm (Fin 0) (Fin 1) r) = Fin (exp z) \<and> - 13 \<le> z)"

section \<open>A scripted random module\<close>

text \<open>
  A generator for concrete runs. Its state counts the draws made; the standard normal
  deviate behind \<open>gauss\<close> is always \<open>z\<close>, \<open>lognormvariate\<close> always returns
  \<open>lv\<close>, \<open>choice\<close> alternates between the first and the last element,
  \<open>randint\<close> walks through its range, and \<open>uniform\<close> returns the midpoint.
\<close>

definition scripted_rm :: "real \<Rightarrow> real \<Rightarrow> nat random_module" where
  "scripted_rm z lv =
     \<lparr>gauss = (\<lambda>mu sigma r. (fadd mu (fmul (Fin z) sigma), Suc r)),
      lognormvariate = (\<lambda>mu sigma r. (Fin lv, Suc r)),
      choice = (\<lambda>seq r. (if even r then hd seq else last seq, Suc r)),
      randint = (\<lambda>a b r. (a + int r mod (b - a + 1), Suc r)),
      uniform = (\<lambda>a b r. (fmul (fadd a b) (Fin (1 / 2)), Suc r))\<rparr>"

section \<open>The driver\<close>

text \<open>
  What \<open>main\<close> does to the outside is recorded as a trace of events. A printed line is
  recorded by its kind and the values it shows, not by its text; the measured rate in the
  progress line depends on the wall clock and is left out.
\<close>

datatype message =
    Starting
  | Broker string
  | Topic string
  | Symbols "string list"
  | Rate pyfloat
  | Blank
  | Dry_run
  | Trade_json trade
  | Connected_to string
  | Connect_failed string
  | Make_sure
  | Progress nat string pyfloat
  | Closed

datatype event =
    Print message
  | Sleep pyfloat
  | Send string trade
  | Flush
  | Close

text \<open>
  The state that \<open>main\<close> works on: the dictionary of simulators, the generator of
  \<open>random\<close>, the number of clock readings taken so far (\<open>next_trade\<close> takes one per
  call and nothing else reads the clock for a record), and the trace.
\<close>

record 'r world =
  w_simulators :: "(string \<times> PriceSimulator) list"
  w_rng :: 'r
  w_clock_reads :: nat
  w_trace :: "event list"

datatype outcome = Returned | Raised py_error

definition emit :: "event list \<Rightarrow> 'r world \<Rightarrow> 'r world" where
  "emit es w = w\<lparr>w_trace := w_trace w @ es\<rparr>"

text \<open>The largest finite double, \<open>(2 - 2^-52) * 2^1023\<close>.\<close>

definition dbl_max :: real where
  "dbl_max = 2 ^ 1024 - 2 ^ 971"

text \<open>
  Float division \<open>a / b\<close>: a zero divisor raises ZeroDivisionError, whatever the
  dividend; a quotient beyond the largest double is an infinity.
\<close>

fun py_div :: "pyfloat \<Rightarrow> pyfloat \<Rightarrow> py_error + pyfloat" where
  "py_div a (Fin y) =
     (if y = 0 then Inl ZeroDivisionError
      else Inr (case a of
                  Fin x \<Rightarrow> (if dbl_max < x / y then PInf
                            else if x / y < - dbl_max then NInf
                            else Fin (x / y))
                | PInf \<Rightarrow> (if 0 < y then PInf else NInf)
                | NInf \<Rightarrow> (if 0 < y then NInf else PInf)
                | NaN \<Rightarrow> NaN))"
| "py_div (Fin x) PInf = Inr (Fin 0)"
| "py_div (Fin x) NInf = Inr (Fin 0)"
| "py_div a b = Inr NaN"

text \<open>
  \<open>time.sleep(secs)\<close> converts the duration to nanoseconds in a signed 64-bit integer
  before it looks at the sign: NaN raises ValueError, a duration beyond \<open>2^63\<close>
  nanoseconds (about 9.2e9 seconds) on either side, or an infinite one, raises
  OverflowError, and a negative duration within the range raises ValueError.
\<close>

definition max_sleep :: real where
  "max_sleep = 2 ^ 63 / 10 ^ 9"

fun py_sleep :: "pyfloat \<Rightarrow> py_error + unit" where
  "py_sleep (Fin x) =
     (if x < - max_sleep \<or> max_sleep < x then Inl OverflowError
      else if x < 0 then Inl ValueError
      else Inr ())"
| "py_sleep PInf = Inl OverflowError"
| "py_sleep NInf = Inl OverflowError"
| "py_sleep NaN = Inl ValueError"

text \<open>
  One \<open>next()\<close> of the generator \<open>generate_trades\<close>: \<open>symbols\<close> is the list of keys
  taken when the generator starts, \<open>utcnow k\<close> the formatted clock reading number
  \<open>k\<close>. The chosen simulator is mutated in the dictionary.
\<close>

definition generate_trades_next ::
  "'r random_module \<Rightarrow> (nat \<Rightarrow> string) \<Rightarrow> string list \<Rightarrow> 'r world \<Rightarrow> py_error + (trade \<times> 'r world)" where
  "generate_trades_next rm utcnow symbols w =
     (case py_choice rm symbols (w_rng w) of
        Inl e \<Rightarrow> Inl e
      | Inr (sy, r1) \<Rightarrow>
          (case map_of (w_simulators w) sy of
             None \<Rightarrow> Inl KeyError
           | Some sim \<Rightarrow>
               (case next_trade rm (utcnow (w_clock_reads w)) sim r1 of
                  Inl e \<Rightarrow> Inl e
                | Inr (tr, sim', r2) \<Rightarrow>
                    Inr (tr, w\<lparr>w_simulators := AList.update sy sim' (w_simulators w),
                               w_rng := r2,
                               w_clock_reads := Suc (w_clock_reads w)\<rparr>))))"

text \<open>The command line, after \<open>argparse\<close>.\<close>

record args =
  arg_broker :: string
  arg_topic :: string
  arg_symbols :: string
  arg_rate :: pyfloat
  arg_count :: int
  arg_dry_run :: bool

text \<open>
  The loop of the dry run, from iteration \<open>i\<close> of \<open>enumerate\<close>. It returns the way
  the loop ends and the state then, or nothing when it runs forever. An exception of the
  sleep leaves the loop with the record already printed.
\<close>

partial_function (option) dry_run_loop ::
  "'r random_module \<Rightarrow> (nat \<Rightarrow> string) \<Rightarrow> args \<Rightarrow> string list \<Rightarrow> nat \<Rightarrow> 'r world
     \<Rightarrow> (outcome \<times> 'r world) option" where
  "dry_run_loop rm utcnow a symbols i w =
     (case generate_trades_next rm utcnow symbols w of
        Inl e \<Rightarrow> Some (Raised e, w)
      | Inr (tr, w1) \<Rightarrow>
          (let w2 = emit [Print (Trade_json tr)] w1
           in case py_div (Fin 1) (arg_rate a) of
                Inl e \<Rightarrow> Some (Raised e, w2)
              | Inr secs \<Rightarrow>
                  (case py_sleep secs of
                     Inl e \<Rightarrow> Some (Raised e, w2)
                   | Inr u \<Rightarrow>
                       (let w3 = emit [Sleep secs] w2
                        in if arg_count a \<noteq> 0 \<and> arg_count a - 1 \<le> int i
                           then Some (Returned, w3)
                           else dry_run_loop rm utcnow a symbols (Suc i) w3))))"

text \<open>
  The sending loop, with \<open>sent\<close> records sent so far. \<open>producer.send\<close> hands the
  record to the client and is taken not to raise. KeyboardInterrupt, which arrives from
  outside at any moment, is not modelled.
\<close>

partial_function (option) send_loop ::
  "'r random_module \<Rightarrow> (nat \<Rightarrow> string) \<Rightarrow> args \<Rightarrow> string list \<Rightarrow> pyfloat \<Rightarrow> nat \<Rightarrow> 'r world
     \<Rightarrow> (outcome \<times> 'r world) option" where
  "send_loop rm utcnow a symbols interval sent w =
     (case generate_trades_next rm utcnow symbols w of
        Inl e \<Rightarrow> Some (Raised e, w)
      | Inr (tr, w1) \<Rightarrow>
          (let w2 = emit [Send (arg_topic a) tr] w1;
               sent1 = Suc sent;
               w3 = (if sent1 mod 100 = 0
                     then emit [Print (Progress sent1 (rec_symbol tr) (rec_price tr))] w2
                     else w2)
           in case py_sleep interval of
                Inl e \<Rightarrow> Some (Raised e, w3)
              | Inr u \<Rightarrow>
                  (let w4 = emit [Sleep interval] w3
                   in if arg_count a \<noteq> 0 \<and> arg_count a \<le> int sent1
                      then Some (Returned, w4)
                      else send_loop rm utcnow a symbols interval sent1 w4)))"

declare dry_run_loop.simps [code]
declare send_loop.simps [code]

text \<open>\<open>str.split(",")\<close> and \<open>str.strip()\<close> on ASCII text.\<close>

fun split_comma :: "string \<Rightarrow> string list" where
  "split_comma [] = [[]]"
| "split_comma (c # cs) =
     (if c = CHR '','' then [] # split_comma cs
      else (case split_comma cs of
              [] \<Rightarrow> [[c]]
            | p # ps \<Rightarrow> (c # p) # ps))"

definition is_space :: "char \<Rightarrow> bool" where
  "is_space c = (let n = (of_char c :: nat) in (9 \<le> n \<and> n \<le> 13) \<or> (28 \<le> n \<and> n \<le> 32))"

definition strip :: "string \<Rightarrow> string" where
  "strip s = rev (dropWhile is_space (rev (dropWhile is_space s)))"

text \<open>What \<open>KafkaProducer(...)\<close> does: it returns a producer or raises a KafkaError.\<close>

datatype connect_outcome = Connected | KafkaError string

text \<open>
  \<open>main\<close>. \<open>kafka\<close> tells what the connection to a broker address does in this run.
  After the sending loop the \<open>finally\<close> clause flushes and closes the producer,
  also when the loop was left by an exception.
\<close>

definition main ::
  "'r random_module \<Rightarrow> (nat \<Rightarrow> string) \<Rightarrow> (string \<Rightarrow> connect_outcome) \<Rightarrow> args \<Rightarrow> 'r
     \<Rightarrow> (outcome \<times> 'r world) option" where
  "main rm utcnow kafka a r =
     (let symbols = map strip (split_comma (arg_symbols a));
          (simulators, r1) = create_simulators rm symbols r;
          w0 = \<lparr>w_simulators = simulators, w_rng = r1, w_clock_reads = 0,
                w_trace = [Print Starting, Print (Broker (arg_broker a)),
                           Print (Topic (arg_topic a)), Print (Symbols symbols),
                           Print (Rate (arg_rate a)), Print Blank]\<rparr>
      in if arg_dry_run a
         then dry_run_loop rm utcnow a (map fst (w_simulators w0)) 0 (emit [Print Dry_run] w0)
         else (case kafka (arg_broker a) of
                 KafkaError e \<Rightarrow> Some (Returned, emit [Print (Connect_failed e), Print Make_sure] w0)
               | Connected \<Rightarrow>
                   (let w1 = emit [Print (Connected_to (arg_broker a))] w0
                    in case py_div (Fin 1) (arg_rate a) of
                         Inl e \<Rightarrow> Some (Raised e, w1)
                       | Inr interval \<Rightarrow>
                           (case send_loop rm utcnow a (map fst (w_simulators w1)) interval 0 w1 of
                              None \<Rightarrow> None
                            | Some (out, w2) \<Rightarrow>
                                Some (out, emit [Flush, Close, Print Closed] w2)))))"

text \<open>The records printed by a dry run, as they appear in a trace.\<close>

fun printed_trades :: "event list \<Rightarrow> trade list" where
  "printed_trades [] = []"
| "printed_trades (Print (Trade_json tr) # es) = tr # printed_trades es"
| "printed_trades (e # es) = printed_trades es"

text \<open>The events that call the producer.\<close>

fun touches_sink :: "event \<Rightarrow> bool" where
  "touches_sink (Send tp tr) = True"
| "touches_sink Flush = True"
| "touches_sink Close = True"
| "touches_sink e = False"

section \<open>Properties of next_trade\<close>

lemma py_max_floor_cases:
  "py_max q (Fin c) =
     (case q of Fin x \<Rightarrow> Fin (max x c) | PInf \<Rightarrow> PInf | NInf \<Rightarrow> Fin c | NaN \<Rightarrow> NaN)"
  by (cases q) (auto simp: py_max_def max_def)

lemma next_trade_Inr:
  "\<exists>tr self' r'. next_trade rm now self r = Inr (tr, self', r')"
  by (simp add: next_trade_def py_choice_def Let_def split: prod.splits)

lemma next_trade_fields:
  assumes "next_trade rm now self r = Inr (tr, self', r')"
  shows "price self' =
           py_max (fmul (price self) (fadd (Fin 1) (fst (gauss rm (Fin 0) (volatility self) r))))
             (Fin (1 / 10000))"
    and "rec_price tr = py_round (price self') 8"
    and "rec_volume tr =
           py_round (fmul (fst (lognormvariate rm (Fin 0) (Fin 1)
             (snd (gauss rm (Fin 0) (volatility self) r)))) (Fin (1 / 10))) 8"
    and "trade_id self' = trade_id self + 1"
    and "rec_trade_id tr = trade_id self'"
    and "symbol self' = symbol self"
    and "volatility self' = volatility self"
  using assms
  by (auto simp: next_trade_def py_choice_def Let_def split: prod.splits)

lemma round_half_even_ge:
  "of_int k \<le> x \<Longrightarrow> k \<le> round_half_even x"
  unfolding round_half_even_def Let_def
  by (auto simp: le_floor_iff) (smt (verit) le_floor_iff)+

lemma round_half_even_pos_iff: "0 < round_half_even x \<longleftrightarrow> 1 / 2 < x"
proof -
  have "\<lfloor>x\<rfloor> \<le> 0 \<longleftrightarrow> x < 1" by (simp add: floor_le_iff)
  moreover have "\<lfloor>x\<rfloor> < 0 \<longleftrightarrow> x < 0" by (simp add: floor_less_iff)
  ultimately show ?thesis
    unfolding round_half_even_def Let_def
    apply (cases "\<lfloor>x\<rfloor> < 0")
    subgoal by (simp; linarith)
    apply (cases "\<lfloor>x\<rfloor> = 0")
    subgoal by (simp; linarith)
    subgoal by (simp; linarith)
    done
qed

text \<open>
  C1 (as amended). After a call of \<open>next_trade\<close> whose new price is a number (not NaN),
  the simulator's price is at least the floor \<open>0.0001\<close> and the price field of the
  returned record is strictly positive. The price is exactly the floor whenever the
  stepped price \<open>price * (1 + change)\<close> is at or below the floor, and it is the stepped
  price whenever that is above the floor: the clamp is \<open>max(price, 0.0001)\<close>.
\<close>

theorem next_trade_price_floor:
  assumes "next_trade rm now self r = Inr (tr, self', r')"
    and "price self' \<noteq> NaN"
  shows "fle (Fin (1 / 10000)) (price self') \<and> flt (Fin 0) (rec_price tr)
       \<and> (fle (fmul (price self) (fadd (Fin 1) (fst (gauss rm (Fin 0) (volatility self) r))))
              (Fin (1 / 10000))
            \<longrightarrow> price self' = Fin (1 / 10000))
       \<and> (flt (Fin (1 / 10000))
              (fmul (price self) (fadd (Fin 1) (fst (gauss rm (Fin 0) (volatility self) r))))
            \<longrightarrow> price self' =
                  fmul (price self) (fadd (Fin 1) (fst (gauss rm (Fin 0) (volatility self) r))))"
proof -
  let ?q = "fmul (price self) (fadd (Fin 1) (fst (gauss rm (Fin 0) (volatility self) r)))"
  have p: "price self' = py_max ?q (Fin (1 / 10000))"
    and rp: "rec_price tr = py_round (price self') 8"
    using next_trade_fields[OF assms(1)] by simp_all
  show ?thesis
  proof (cases ?q)
    case (Fin x)
    then have ps: "price self' = Fin (max x (1 / 10000))"
      using p by (simp add: py_max_floor_cases)
    have "of_int 10000 \<le> max x (1 / 10000) * 10 ^ 8" by (simp add: max_def)
    then have "10000 \<le> round_half_even (max x (1 / 10000) * 10 ^ 8)"
      by (rule round_half_even_ge)
    then have "fle (Fin (1 / 10000)) (price self') \<and> flt (Fin 0) (rec_price tr)"
      using ps rp by simp
    moreover have "fle ?q (Fin (1 / 10000)) \<longrightarrow> price self' = Fin (1 / 10000)"
      using Fin ps by (simp add: max_def)
    moreover have "flt (Fin (1 / 10000)) ?q \<longrightarrow> price self' = ?q"
      using Fin ps by (simp add: max_def)
    ultimately show ?thesis by blast
  next
    case PInf
    then show ?thesis using p rp by (simp add: py_max_floor_cases)
  next
    case NInf
    then have ps: "price self' = Fin (1 / 10000)" using p by (simp add: py_max_floor_cases)
    have "round_half_even (1 / 10000 * 10 ^ 8) = 10000"
      by (simp add: round_half_even_def)
    then show ?thesis using ps rp NInf by simp
  next
    case NaN
    then show ?thesis using p assms(2) by (simp add: py_max_floor_cases)
  qed
qed

text \<open>
  A call on BTC/USD at 45000 with a step of one standard deviation upwards: the price
  becomes the stepped price 45009. A call at the floor with a step downwards: the stepped
  price is 0.00009998 and the price is the floor.
\<close>

theorem next_trade_price_floor_witness:
  "next_trade (scripted_rm 1 1) ''t''
     \<lparr>symbol = ''BTC/USD'', price = Fin 45000, volatility = Fin (2 / 10000), trade_id = 1000000\<rparr> 0
   = Inr (\<lparr>rec_exchange_time = ''t'', rec_symbol = ''BTC/USD'', rec_price = Fin 45009,
            rec_volume = Fin (1 / 10), rec_trade_id = 1000001, rec_side = ''buy''\<rparr>,
          \<lparr>symbol = ''BTC/USD'', price = Fin 45009, volatility = Fin (2 / 10000),
            trade_id = 1000001\<rparr>, 3)
   \<and> Fin 45009 \<noteq> NaN
   \<and> fmul (Fin 45000) (fadd (Fin 1) (Fin (2 / 10000))) = Fin 45009
   \<and> flt (Fin (1 / 10000)) (Fin 45009)
   \<and> fle (Fin (1 / 10000)) (Fin 45009) \<and> flt (Fin 0) (Fin 45009)
   \<and> next_trade (scripted_rm (- 1) 1) ''t''
     \<lparr>symbol = ''X'', price = Fin (1 / 10000), volatility = Fin (2 / 10000), trade_id = 5\<rparr> 0
   = Inr (\<lparr>rec_exchange_time = ''t'', rec_symbol = ''X'', rec_price = Fin (1 / 10000),
            rec_volume = Fin (1 / 10), rec_trade_id = 6, rec_side = ''buy''\<rparr>,
          \<lparr>symbol = ''X'', price = Fin (1 / 10000), volatility = Fin (2 / 10000),
            trade_id = 6\<rparr>, 3)
   \<and> fmul (Fin (1 / 10000)) (fadd (Fin 1) (Fin (- (2 / 10000)))) = Fin (9998 / 10 ^ 8)
   \<and> fle (Fin (9998 / 10 ^ 8)) (Fin (1 / 10000))
   \<and> fle (Fin (1 / 10000)) (Fin (1 / 10000)) \<and> flt (Fin 0) (Fin (1 / 10000))"
proof -
  have run: "next_trade (scripted_rm 1 1) ''t''
     \<lparr>symbol = ''BTC/USD'', price = Fin 45000, volatility = Fin (2 / 10000), trade_id = 1000000\<rparr> 0
   = Inr (\<lparr>rec_exchange_time = ''t'', rec_symbol = ''BTC/USD'', rec_price = Fin 45009,
            rec_volume = Fin (1 / 10), rec_trade_id = 1000001, rec_side = ''buy''\<rparr>,
          \<lparr>symbol = ''BTC/USD'', price = Fin 45009, volatility = Fin (2 / 10000),
            trade_id = 1000001\<rparr>, 3)"
    by (simp add: next_trade_def scripted_rm_def py_choice_def py_max_def
        round_half_even_def Let_def)
  have low: "next_trade (scripted_rm (- 1) 1) ''t''
     \<lparr>symbol = ''X'', price = Fin (1 / 10000), volatility = Fin (2 / 10000), trade_id = 5\<rparr> 0
   = Inr (\<lparr>rec_exchange_time = ''t'', rec_symbol = ''X'', rec_price = Fin (1 / 10000),
            rec_volume = Fin (1 / 10), rec_trade_id = 6, rec_side = ''buy''\<rparr>,
          \<lparr>symbol = ''X'', price = Fin (1 / 10000), volatility = Fin (2 / 10000),
            trade_id = 6\<rparr>, 3)"
    by (simp add: next_trade_def scripted_rm_def py_choice_def py_max_def
        round_half_even_def Let_def)
  have vals: "fmul (Fin 45000) (fadd (Fin 1) (Fin (2 / 10000))) = Fin 45009"
    "fmul (Fin (1 / 10000)) (fadd (Fin 1) (Fin (- (2 / 10000)))) = Fin (9998 / 10 ^ 8)"
    by simp_all
  note up = next_trade_price_floor[OF run]
  note down = next_trade_price_floor[OF low]
  from up[THEN conjunct1] up[THEN conjunct2, THEN conjunct1]
    down[THEN conjunct1] down[THEN conjunct2, THEN conjunct1] run low vals
  show ?thesis by simp
qed

text \<open>
  C1 as stated fails: a simulator at the floor whose next step is downwards stays at
  exactly \<open>0.0001\<close>, which is not strictly greater than the floor. And a simulator
  whose price is NaN keeps it, with NaN in the record: NaN is neither above the floor
  nor strictly positive.
\<close>

theorem next_trade_price_at_floor_counterexample:
  "next_trade (scripted_rm (- 1) 1) ''t''
     \<lparr>symbol = ''X'', price = Fin (1 / 10000), volatility = Fin (2 / 10000), trade_id = 5\<rparr> 0
   = Inr (\<lparr>rec_exchange_time = ''t'', rec_symbol = ''X'', rec_price = Fin (1 / 10000),
            rec_volume = Fin (1 / 10), rec_trade_id = 6, rec_side = ''buy''\<rparr>,
          \<lparr>symbol = ''X'', price = Fin (1 / 10000), volatility = Fin (2 / 10000),
            trade_id = 6\<rparr>, 3)
   \<and> \<not> flt (Fin (1 / 10000)) (Fin (1 / 10000))
   \<and> next_trade (scripted_rm (- 1) 1) ''t''
     \<lparr>symbol = ''X'', price = NaN, volatility = Fin (2 / 10000), trade_id = 5\<rparr> 0
   = Inr (\<lparr>rec_exchange_time = ''t'', rec_symbol = ''X'', rec_price = NaN,
            rec_volume = Fin (1 / 10), rec_trade_id = 6, rec_side = ''buy''\<rparr>,
          \<lparr>symbol = ''X'', price = NaN, volatility = Fin (2 / 10000),
            trade_id = 6\<rparr>, 3)
   \<and> \<not> flt (Fin (1 / 10000)) NaN \<and> \<not> flt (Fin 0) NaN"
  by (simp add: next_trade_def scripted_rm_def py_choice_def py_max_def
      round_half_even_def Let_def)

lemma exp_minus_13_lower: "1 / 3 ^ 13 \<le> exp (- 13 :: real)"
proof -
  have "exp (13 :: real) = exp (of_nat 13 * 1)" by simp
  also have "\<dots> = exp 1 ^ 13" by (rule exp_of_nat_mult)
  also have "\<dots> \<le> 3 ^ 13" using exp_le by (intro power_mono) simp_all
  finally have "exp (13 :: real) \<le> 3 ^ 13" .
  then have "1 / 3 ^ 13 \<le> 1 / exp (13 :: real)"
    by (intro divide_left_mono) simp_all
  then show ?thesis by (simp add: exp_minus inverse_eq_divide)
qed

text \<open>
  C3. The volume field of every record returned by \<open>next_trade\<close> is the log-normal draw
  scaled by 0.1 and rounded to 8 places, and it is strictly positive, for every draw that
  \<open>lognormvariate(0, 1)\<close> can return: the smallest one is above \<open>exp(-13)\<close>, so the
  volume is above \<open>6e-8\<close> before rounding and at least that after.
\<close>

theorem next_trade_volume_positive:
  assumes "lognormvariate_reach rm"
    and "next_trade rm now self r = Inr (tr, self', r')"
  shows "rec_volume tr =
           py_round (fmul (fst (lognormvariate rm (Fin 0) (Fin 1)
             (snd (gauss rm (Fin 0) (volatility self) r)))) (Fin (1 / 10))) 8
       \<and> flt (Fin 0) (rec_volume tr)
       \<and> fle (Fin (6 / 10 ^ 8)) (rec_volume tr)"
proof -
  let ?r1 = "snd (gauss rm (Fin 0) (volatility self) r)"
  have rv: "rec_volume tr =
      py_round (fmul (fst (lognormvariate rm (Fin 0) (Fin 1) ?r1)) (Fin (1 / 10))) 8"
    using next_trade_fields(3)[OF assms(2)] .
  obtain z where z: "fst (lognormvariate rm (Fin 0) (Fin 1) ?r1) = Fin (exp z)" "- 13 \<le> z"
    using assms(1) unfolding lognormvariate_reach_def by blast
  have "exp (- 13 :: real) \<le> exp z" using z(2) by simp
  then have low: "1 / 3 ^ 13 \<le> exp z" using exp_minus_13_lower by linarith
  have "(6 :: real) \<le> 1 / 3 ^ 13 * (1 / 10) * 10 ^ 8" by simp
  also have "\<dots> \<le> exp z * (1 / 10) * 10 ^ 8"
    using low by (intro mult_right_mono) simp_all
  finally have "of_int 6 \<le> exp z * (1 / 10) * 10 ^ 8" by simp
  then have six: "6 \<le> round_half_even (exp z * (1 / 10) * 10 ^ 8)"
    by (rule round_half_even_ge)
  have field: "rec_volume tr = Fin (of_int (round_half_even (exp z * (1 / 10) * 10 ^ 8)) / 10 ^ 8)"
    using rv z(1) by simp
  have "(6 :: real) \<le> of_int (round_half_even (exp z * (1 / 10) * 10 ^ 8))"
    using six by linarith
  then have "flt (Fin 0) (rec_volume tr) \<and> fle (Fin (6 / 10 ^ 8)) (rec_volume tr)"
    unfolding field by (simp add: field_simps)
  then show ?thesis using rv by simp
qed

lemma lognormvariate_reach_scripted: "lognormvariate_reach (scripted_rm z 1)"
proof -
  have "Fin 1 = Fin (exp (0 :: real)) \<and> - 13 \<le> (0 :: real)" by simp
  then have "\<exists>y :: real. Fin 1 = Fin (exp y) \<and> - 13 \<le> y" by blast
  then show ?thesis by (simp add: lognormvariate_reach_def scripted_rm_def)
qed

text \<open>A call whose draw is \<open>exp(0) = 1\<close>: the volume field is 0.1.\<close>

theorem next_trade_volume_positive_witness:
  "lognormvariate_reach (scripted_rm 1 1)
   \<and> next_trade (scripted_rm 1 1) ''t''
     \<lparr>symbol = ''BTC/USD'', price = Fin 45000, volatility = Fin (2 / 10000), trade_id = 1000000\<rparr> 0
   = Inr (\<lparr>rec_exchange_time = ''t'', rec_symbol = ''BTC/USD'', rec_price = Fin 45009,
            rec_volume = Fin (1 / 10), rec_trade_id = 1000001, rec_side = ''buy''\<rparr>,
          \<lparr>symbol = ''BTC/USD'', price = Fin 45009, volatility = Fin (2 / 10000),
            trade_id = 1000001\<rparr>, 3)
   \<and> Fin (1 / 10) = py_round (fmul (Fin 1) (Fin (1 / 10))) 8
   \<and> flt (Fin 0) (Fin (1 / 10)) \<and> fle (Fin (6 / 10 ^ 8)) (Fin (1 / 10))"
proof -
  have run: "next_trade (scripted_rm 1 1) ''t''
     \<lparr>symbol = ''BTC/USD'', price = Fin 45000, volatility = Fin (2 / 10000), trade_id = 1000000\<rparr> 0
   = Inr (\<lparr>rec_exchange_time = ''t'', rec_symbol = ''BTC/USD'', rec_price = Fin 45009,
            rec_volume = Fin (1 / 10), rec_trade_id = 1000001, rec_side = ''buy''\<rparr>,
          \<lparr>symbol = ''BTC/USD'', price = Fin 45009, volatility = Fin (2 / 10000),
            trade_id = 1000001\<rparr>, 3)"
    by (simp add: next_trade_def scripted_rm_def py_choice_def py_max_def
        round_half_even_def Let_def)
  have rounded: "Fin (1 / 10) = py_round (fmul (Fin 1) (Fin (1 / 10))) 8"
    by (simp add: round_half_even_def)
  note pos = next_trade_volume_positive[OF lognormvariate_reach_scripted[of 1] run]
  from pos[THEN conjunct2] run rounded lognormvariate_reach_scripted[of 1]
  show ?thesis by simp
qed

text \<open>
  C9. \<open>next_trade\<close> stores the clamped price unrounded; only the record's copy is
  rounded. The next call steps from the stored price, not from the price field of the
  record before it, and the two can differ.
\<close>

theorem next_trade_rounding_no_feedback:
  assumes "next_trade rm now1 self r = Inr (tr1, self1, r1)"
    and "next_trade rm now2 self1 r1 = Inr (tr2, self2, r2)"
  shows "price self1 =
           py_max (fmul (price self) (fadd (Fin 1) (fst (gauss rm (Fin 0) (volatility self) r))))
             (Fin (1 / 10000))
       \<and> rec_price tr1 = py_round (price self1) 8
       \<and> price self2 =
           py_max (fmul (price self1) (fadd (Fin 1) (fst (gauss rm (Fin 0) (volatility self) r1))))
             (Fin (1 / 10000))
       \<and> (\<exists>(rm0 :: nat random_module) now0 self0 r0 tr0 self0' r0'.
             next_trade rm0 now0 self0 r0 = Inr (tr0, self0', r0')
           \<and> rec_price tr0 \<noteq> price self0')"
proof -
  have "next_trade (scripted_rm (1 / 7) 1) ''t''
     \<lparr>symbol = ''BTC/USD'', price = Fin 45000, volatility = Fin (2 / 10000), trade_id = 1000000\<rparr> 0
   = Inr (\<lparr>rec_exchange_time = ''t'', rec_symbol = ''BTC/USD'',
            rec_price = Fin (4500128571429 / 10 ^ 8),
            rec_volume = Fin (1 / 10), rec_trade_id = 1000001, rec_side = ''buy''\<rparr>,
          \<lparr>symbol = ''BTC/USD'', price = Fin (315009 / 7), volatility = Fin (2 / 10000),
            trade_id = 1000001\<rparr>, 3)"
    by (simp add: next_trade_def scripted_rm_def py_choice_def py_max_def
        round_half_even_def Let_def)
  moreover have "rec_price \<lparr>rec_exchange_time = ''t'', rec_symbol = ''BTC/USD'',
            rec_price = Fin (4500128571429 / 10 ^ 8),
            rec_volume = Fin (1 / 10), rec_trade_id = 1000001, rec_side = ''buy''\<rparr>
       \<noteq> price \<lparr>symbol = ''BTC/USD'', price = Fin (315009 / 7), volatility = Fin (2 / 10000),
            trade_id = 1000001\<rparr>"
    by simp
  ultimately have differ: "\<exists>(rm0 :: nat random_module) now0 self0 r0 tr0 self0' r0'.
             next_trade rm0 now0 self0 r0 = Inr (tr0, self0', r0')
           \<and> rec_price tr0 \<noteq> price self0'"
    by blast
  show ?thesis
    using next_trade_fields(1,2,7)[OF assms(1)] next_trade_fields(1)[OF assms(2)] differ
    by simp
qed

text \<open>
  Two calls with steps of a seventh of a standard deviation: the stored price after the
  first is \<open>315009/7\<close>, the record shows 45001.28571429, and the second price is
  \<open>315009/7 * (1 + 0.0002/7)\<close>.
\<close>

theorem next_trade_rounding_no_feedback_witness:
  "next_trade (scripted_rm (1 / 7) 1) ''t''
     \<lparr>symbol = ''BTC/USD'', price = Fin 45000, volatility = Fin (2 / 10000), trade_id = 1000000\<rparr> 0
   = Inr (\<lparr>rec_exchange_time = ''t'', rec_symbol = ''BTC/USD'',
            rec_price = Fin (4500128571429 / 10 ^ 8),
            rec_volume = Fin (1 / 10), rec_trade_id = 1000001, rec_side = ''buy''\<rparr>,
          \<lparr>symbol = ''BTC/USD'', price = Fin (315009 / 7), volatility = Fin (2 / 10000),
            trade_id = 1000001\<rparr>, 3)
   \<and> next_trade (scripted_rm (1 / 7) 1) ''u''
     \<lparr>symbol = ''BTC/USD'', price = Fin (315009 / 7), volatility = Fin (2 / 10000),
       trade_id = 1000001\<rparr> 3
   = Inr (\<lparr>rec_exchange_time = ''u'', rec_symbol = ''BTC/USD'',
            rec_price = Fin (4500257146531 / 10 ^ 8),
            rec_volume = Fin (1 / 10), rec_trade_id = 1000002, rec_side = ''sell''\<rparr>,
          \<lparr>symbol = ''BTC/USD'', price = Fin (11025630009 / 245000), volatility = Fin (2 / 10000),
            trade_id = 1000002\<rparr>, 6)
   \<and> Fin (4500128571429 / 10 ^ 8) \<noteq> Fin (315009 / 7)
   \<and> Fin (11025630009 / 245000)
       = py_max (fmul (Fin (315009 / 7)) (fadd (Fin 1) (Fin (2 / 70000)))) (Fin (1 / 10000))
   \<and> Fin (11025630009 / 245000)
       \<noteq> py_max (fmul (Fin (4500128571429 / 10 ^ 8)) (fadd (Fin 1) (Fin (2 / 70000))))
           (Fin (1 / 10000))"
proof -
  have run1: "next_trade (scripted_rm (1 / 7) 1) ''t''
     \<lparr>symbol = ''BTC/USD'', price = Fin 45000, volatility = Fin (2 / 10000), trade_id = 1000000\<rparr> 0
   = Inr (\<lparr>rec_exchange_time = ''t'', rec_symbol = ''BTC/USD'',
            rec_price = Fin (4500128571429 / 10 ^ 8),
            rec_volume = Fin (1 / 10), rec_trade_id = 1000001, rec_side = ''buy''\<rparr>,
          \<lparr>symbol = ''BTC/USD'', price = Fin (315009 / 7), volatility = Fin (2 / 10000),
            trade_id = 1000001\<rparr>, 3)"
    by (simp add: next_trade_def scripted_rm_def py_choice_def py_max_def
        round_half_even_def Let_def)
  have run2: "next_trade (scripted_rm (1 / 7) 1) ''u''
     \<lparr>symbol = ''BTC/USD'', price = Fin (315009 / 7), volatility = Fin (2 / 10000),
       trade_id = 1000001\<rparr> 3
   = Inr (\<lparr>rec_exchange_time = ''u'', rec_symbol = ''BTC/USD'',
            rec_price = Fin (4500257146531 / 10 ^ 8),
            rec_volume = Fin (1 / 10), rec_trade_id = 1000002, rec_side = ''sell''\<rparr>,
          \<lparr>symbol = ''BTC/USD'', price = Fin (11025630009 / 245000), volatility = Fin (2 / 10000),
            trade_id = 1000002\<rparr>, 6)"
    by (simp add: next_trade_def scripted_rm_def py_choice_def py_max_def
        round_half_even_def Let_def)
  have vals: "Fin (4500128571429 / 10 ^ 8) \<noteq> Fin (315009 / 7)"
    "Fin (11025630009 / 245000)
       = py_max (fmul (Fin (315009 / 7)) (fadd (Fin 1) (Fin (2 / 70000)))) (Fin (1 / 10000))"
    "Fin (11025630009 / 245000)
       \<noteq> py_max (fmul (Fin (4500128571429 / 10 ^ 8)) (fadd (Fin 1) (Fin (2 / 70000))))
           (Fin (1 / 10000))"
    by (simp_all add: py_max_def)
  note step = next_trade_rounding_no_feedback[OF run1 run2]
  from step[THEN conjunct1] step[THEN conjunct2, THEN conjunct1] run1 run2 vals
  show ?thesis by simp
qed

text \<open>
  C10 (as amended). For every float initial price and float volatility, \<open>next_trade\<close>
  on the new simulator returns a record: no operation in it fails. After the first call
  the price is at least \<open>0.0001\<close> exactly when the stepped price
  \<open>initial_price * (1 + change)\<close> is not NaN; it is so for every finite initial price,
  zero and negative ones included, with a finite change. When the stepped price is NaN,
  as it is for a NaN initial price, the price stays NaN and the record's price is NaN.
\<close>

theorem next_trade_total:
  "\<exists>tr self' r'.
      next_trade rm now (fst (PriceSimulator_init rm s p v r0)) r = Inr (tr, self', r')
    \<and> (fle (Fin (1 / 10000)) (price self')
         \<longleftrightarrow> fmul p (fadd (Fin 1) (fst (gauss rm (Fin 0) v r))) \<noteq> NaN)
    \<and> ((\<exists>x c. p = Fin x \<and> fst (gauss rm (Fin 0) v r) = Fin c)
         \<longrightarrow> fle (Fin (1 / 10000)) (price self'))
    \<and> (fmul p (fadd (Fin 1) (fst (gauss rm (Fin 0) v r))) = NaN
         \<longrightarrow> price self' = NaN \<and> rec_price tr = NaN)
    \<and> (p = NaN \<longrightarrow> price self' = NaN \<and> rec_price tr = NaN)"
proof -
  let ?self = "fst (PriceSimulator_init rm s p v r0)"
  have init: "price ?self = p" "volatility ?self = v"
    by (simp_all add: PriceSimulator_init_def split: prod.splits)
  obtain tr self' r' where run: "next_trade rm now ?self r = Inr (tr, self', r')"
    using next_trade_Inr[of rm now ?self r] by blast
  let ?q = "fmul p (fadd (Fin 1) (fst (gauss rm (Fin 0) v r)))"
  have p': "price self' = py_max ?q (Fin (1 / 10000))"
    using next_trade_fields(1)[OF run] init by simp
  have rp: "rec_price tr = py_round (price self') 8"
    using next_trade_fields(2)[OF run] .
  have iff: "fle (Fin (1 / 10000)) (price self') \<longleftrightarrow> ?q \<noteq> NaN"
    unfolding p' py_max_floor_cases by (cases ?q) simp_all
  have fin: "(\<exists>x c. p = Fin x \<and> fst (gauss rm (Fin 0) v r) = Fin c) \<longrightarrow> ?q \<noteq> NaN"
    by auto
  have nan: "?q = NaN \<longrightarrow> price self' = NaN \<and> rec_price tr = NaN"
    using p' rp by (simp add: py_max_def)
  have "p = NaN \<longrightarrow> ?q = NaN" by simp
  then have pnan: "p = NaN \<longrightarrow> price self' = NaN \<and> rec_price tr = NaN"
    using nan by blast
  show ?thesis using run iff fin nan pnan by blast
qed

text \<open>
  A simulator constructed at the negative price \<open>-5\<close> is at the floor after one call;
  one constructed at NaN is at NaN.
\<close>

theorem next_trade_total_witness:
  "next_trade (scripted_rm (- 1) 1) ''t''
     (fst (PriceSimulator_init (scripted_rm (- 1) 1) ''X'' (Fin (- 5)) default_volatility 0)) 1
   = Inr (\<lparr>rec_exchange_time = ''t'', rec_symbol = ''X'', rec_price = Fin (1 / 10000),
            rec_volume = Fin (1 / 10), rec_trade_id = 1000001, rec_side = ''sell''\<rparr>,
          \<lparr>symbol = ''X'', price = Fin (1 / 10000), volatility = Fin (2 / 10000),
            trade_id = 1000001\<rparr>, 4)
   \<and> fst (gauss (scripted_rm (- 1) 1) (Fin 0) default_volatility 1) = Fin (- (2 / 10000))
   \<and> fle (Fin (1 / 10000)) (Fin (1 / 10000))
   \<and> next_trade (scripted_rm (- 1) 1) ''t''
     (fst (PriceSimulator_init (scripted_rm (- 1) 1) ''X'' NaN default_volatility 0)) 1
   = Inr (\<lparr>rec_exchange_time = ''t'', rec_symbol = ''X'', rec_price = NaN,
            rec_volume = Fin (1 / 10), rec_trade_id = 1000001, rec_side = ''sell''\<rparr>,
          \<lparr>symbol = ''X'', price = NaN, volatility = Fin (2 / 10000),
            trade_id = 1000001\<rparr>, 4)
   \<and> fmul NaN (fadd (Fin 1) (Fin (- (2 / 10000)))) = NaN"
proof -
  have run: "next_trade (scripted_rm (- 1) 1) ''t''
     (fst (PriceSimulator_init (scripted_rm (- 1) 1) ''X'' (Fin (- 5)) default_volatility 0)) 1
   = Inr (\<lparr>rec_exchange_time = ''t'', rec_symbol = ''X'', rec_price = Fin (1 / 10000),
            rec_volume = Fin (1 / 10), rec_trade_id = 1000001, rec_side = ''sell''\<rparr>,
          \<lparr>symbol = ''X'', price = Fin (1 / 10000), volatility = Fin (2 / 10000),
            trade_id = 1000001\<rparr>, 4)"
    by (simp add: PriceSimulator_init_def default_volatility_def next_trade_def scripted_rm_def py_choice_def py_max_def
        round_half_even_def Let_def)
  have nan: "next_trade (scripted_rm (- 1) 1) ''t''
     (fst (PriceSimulator_init (scripted_rm (- 1) 1) ''X'' NaN default_volatility 0)) 1
   = Inr (\<lparr>rec_exchange_time = ''t'', rec_symbol = ''X'', rec_price = NaN,
            rec_volume = Fin (1 / 10), rec_trade_id = 1000001, rec_side = ''sell''\<rparr>,
          \<lparr>symbol = ''X'', price = NaN, volatility = Fin (2 / 10000),
            trade_id = 1000001\<rparr>, 4)"
    by (simp add: PriceSimulator_init_def default_volatility_def next_trade_def scripted_rm_def py_choice_def py_max_def
        round_half_even_def Let_def)
  have change: "fst (gauss (scripted_rm (- 1) 1) (Fin 0) default_volatility 1)
      = Fin (- (2 / 10000))"
    by (simp add: scripted_rm_def default_volatility_def)
  from next_trade_total[of "scripted_rm (- 1) 1" "''t''" "''X''" "Fin (- 5)"
      default_volatility 0 1]
  obtain tr self' r' where
    "next_trade (scripted_rm (- 1) 1) ''t''
       (fst (PriceSimulator_init (scripted_rm (- 1) 1) ''X'' (Fin (- 5)) default_volatility 0)) 1
     = Inr (tr, self', r')"
    "fle (Fin (1 / 10000)) (price self')
      \<longleftrightarrow> fmul (Fin (- 5)) (fadd (Fin 1)
            (fst (gauss (scripted_rm (- 1) 1) (Fin 0) default_volatility 1))) \<noteq> NaN"
    by blast
  then show ?thesis using run nan change by simp
qed

text \<open>
  C10 as stated fails: a simulator constructed with the price NaN keeps the price NaN,
  since \<open>max(nan, 0.0001)\<close> is \<open>nan\<close>; NaN is not at least \<open>0.0001\<close>.
\<close>

theorem next_trade_nan_price_counterexample:
  "next_trade (scripted_rm (- 1) 1) ''t''
     (fst (PriceSimulator_init (scripted_rm (- 1) 1) ''X'' NaN default_volatility 0)) 1
   = Inr (\<lparr>rec_exchange_time = ''t'', rec_symbol = ''X'', rec_price = NaN,
            rec_volume = Fin (1 / 10), rec_trade_id = 1000001, rec_side = ''sell''\<rparr>,
          \<lparr>symbol = ''X'', price = NaN, volatility = Fin (2 / 10000),
            trade_id = 1000001\<rparr>, 4)
   \<and> \<not> fle (Fin (1 / 10000)) NaN"
  by (simp add: PriceSimulator_init_def default_volatility_def next_trade_def scripted_rm_def py_choice_def py_max_def
        round_half_even_def Let_def)

section \<open>Successive calls\<close>

lemma run_trades_ids:
  "run_trades rm nows self r = Inr (trs, self', r') \<Longrightarrow>
     map rec_trade_id trs = map (\<lambda>k. trade_id self + 1 + int k) [0..<length nows]
   \<and> trade_id self' = trade_id self + int (length nows)"
proof (induction nows arbitrary: self r trs)
  case Nil
  then show ?case by simp
next
  case (Cons now nows)
  from Cons.prems obtain tr self1 r1 trs1 where
    step: "next_trade rm now self r = Inr (tr, self1, r1)"
    and rest: "run_trades rm nows self1 r1 = Inr (trs1, self', r')"
    and trs: "trs = tr # trs1"
    by (auto split: sum.splits prod.splits)
  have ids: "trade_id self1 = trade_id self + 1" "rec_trade_id tr = trade_id self1"
    using next_trade_fields(4,5)[OF step] by simp_all
  have ih: "map rec_trade_id trs1 = map (\<lambda>k. trade_id self1 + 1 + int k) [0..<length nows]"
    "trade_id self' = trade_id self1 + int (length nows)"
    using Cons.IH[OF rest] by simp_all
  have "[0..<length (now # nows)] = 0 # map Suc [0..<length nows]"
    by (simp add: upt_conv_Cons map_Suc_upt del: upt_Suc)
  then show ?case using trs ids ih by (simp add: comp_def add.assoc add.commute)
qed

lemma randint_in_range_scripted: "randint_in_range (scripted_rm z lv)"
proof -
  have "a \<le> a + int r mod (b - a + 1) \<and> a + int r mod (b - a + 1) \<le> b"
    if "a \<le> b" for a b :: int and r :: nat
  proof -
    have pos: "0 < b - a + 1" using that by simp
    have "0 \<le> int r mod (b - a + 1)" using pos by (rule pos_mod_sign)
    moreover have "int r mod (b - a + 1) < b - a + 1" using pos by (rule pos_mod_bound)
    ultimately show ?thesis by linarith
  qed
  then show ?thesis by (simp add: randint_in_range_def scripted_rm_def)
qed

lemma next_trade_same_draws:
  assumes "next_trade rm now1 s1 r = Inr (t1, s1', r1)"
    and "next_trade rm now2 s2 r = Inr (t2, s2', r2)"
    and "price s1 = price s2" and "volatility s1 = volatility s2"
  shows "pvs t1 = pvs t2 \<and> price s1' = price s2' \<and> volatility s1' = volatility s2' \<and> r1 = r2"
  using assms
  by (auto simp: next_trade_def py_choice_def pvs_def Let_def split: prod.splits)

text \<open>
  C2. Every call of \<open>next_trade\<close> adds exactly 1 to the simulator's counter and returns
  the new value as the trade id, so the ids of successive calls on a simulator whose
  counter is \<open>t\<close> are \<open>t + 1, t + 2, ...\<close>; the counter of a new simulator is the
  result of \<open>randint(1000000, 9999999)\<close>, which lies in that range when \<open>randint\<close>
  keeps to its bounds.
\<close>

theorem trade_id_sequence:
  assumes "run_trades rm nows self r = Inr (trs, self', r')"
  shows "map rec_trade_id trs = map (\<lambda>k. trade_id self + 1 + int k) [0..<length nows]
       \<and> trade_id self' = trade_id self + int (length nows)
       \<and> trade_id (fst (PriceSimulator_init rm s p v r0)) = fst (randint rm 1000000 9999999 r0)
       \<and> (randint_in_range rm \<longrightarrow>
            1000000 \<le> trade_id (fst (PriceSimulator_init rm s p v r0))
          \<and> trade_id (fst (PriceSimulator_init rm s p v r0)) \<le> 9999999)"
proof -
  have tid: "trade_id (fst (PriceSimulator_init rm s p v r0)) = fst (randint rm 1000000 9999999 r0)"
    by (cases "randint rm 1000000 9999999 r0") (simp add: PriceSimulator_init_def)
  have "randint_in_range rm \<longrightarrow>
      1000000 \<le> fst (randint rm 1000000 9999999 r0) \<and> fst (randint rm 1000000 9999999 r0) \<le> 9999999"
    unfolding randint_in_range_def by simp
  then show ?thesis using run_trades_ids[OF assms] tid by simp
qed

text \<open>A new BTC/USD simulator, called twice: the counter starts at 1000000, the ids are 1000001 and 1000002.\<close>

theorem trade_id_sequence_witness:
  "run_trades (scripted_rm 1 1) [''t'', ''u'']
     (fst (PriceSimulator_init (scripted_rm 1 1) ''BTC/USD'' (Fin 45000) default_volatility 0)) 1
   = Inr ([\<lparr>rec_exchange_time = ''t'', rec_symbol = ''BTC/USD'', rec_price = Fin 45009,
             rec_volume = Fin (1 / 10), rec_trade_id = 1000001, rec_side = ''sell''\<rparr>,
           \<lparr>rec_exchange_time = ''u'', rec_symbol = ''BTC/USD'', rec_price = Fin (450180018 / 10000),
             rec_volume = Fin (1 / 10), rec_trade_id = 1000002, rec_side = ''buy''\<rparr>],
          \<lparr>symbol = ''BTC/USD'', price = Fin (450180018 / 10000), volatility = Fin (2 / 10000),
            trade_id = 1000002\<rparr>, 7)
   \<and> randint_in_range (scripted_rm 1 1)
   \<and> trade_id (fst (PriceSimulator_init (scripted_rm 1 1) ''BTC/USD'' (Fin 45000)
        default_volatility 0)) = 1000000
   \<and> map rec_trade_id
       [\<lparr>rec_exchange_time = ''t'', rec_symbol = ''BTC/USD'', rec_price = Fin 45009,
             rec_volume = Fin (1 / 10), rec_trade_id = 1000001, rec_side = ''sell''\<rparr>,
        \<lparr>rec_exchange_time = ''u'', rec_symbol = ''BTC/USD'', rec_price = Fin (450180018 / 10000),
             rec_volume = Fin (1 / 10), rec_trade_id = 1000002, rec_side = ''buy''\<rparr>]
     = [1000000 + 1, 1000000 + 2]"
proof -
  have init: "PriceSimulator_init (scripted_rm 1 1) ''BTC/USD'' (Fin 45000) default_volatility 0
      = (\<lparr>symbol = ''BTC/USD'', price = Fin 45000, volatility = Fin (2 / 10000),
           trade_id = 1000000\<rparr>, 1)"
    by (simp add: PriceSimulator_init_def default_volatility_def scripted_rm_def)
  have run: "run_trades (scripted_rm 1 1) [''t'', ''u'']
     (fst (PriceSimulator_init (scripted_rm 1 1) ''BTC/USD'' (Fin 45000) default_volatility 0)) 1
   = Inr ([\<lparr>rec_exchange_time = ''t'', rec_symbol = ''BTC/USD'', rec_price = Fin 45009,
             rec_volume = Fin (1 / 10), rec_trade_id = 1000001, rec_side = ''sell''\<rparr>,
           \<lparr>rec_exchange_time = ''u'', rec_symbol = ''BTC/USD'', rec_price = Fin (450180018 / 10000),
             rec_volume = Fin (1 / 10), rec_trade_id = 1000002, rec_side = ''buy''\<rparr>],
          \<lparr>symbol = ''BTC/USD'', price = Fin (450180018 / 10000), volatility = Fin (2 / 10000),
            trade_id = 1000002\<rparr>, 7)"
    unfolding init by (simp add: next_trade_def scripted_rm_def py_choice_def py_max_def
        round_half_even_def Let_def)
  note ids = trade_id_sequence[OF run, of "''BTC/USD''" "Fin 45000" default_volatility 0]
  from ids[THEN conjunct1] run init randint_in_range_scripted[of 1 1]
  show ?thesis by simp
qed

text \<open>
  C5. Two runs of the same number of calls from the same generator state, on simulators
  with the same symbol, price and volatility, return the same (price, volume, side)
  tuples and leave the same price and generator state, whatever the clock readings and
  the trade id counters of the two runs are.
\<close>

theorem run_trades_deterministic:
  assumes "length nows1 = length nows2"
    and "symbol s1 = symbol s2" and "price s1 = price s2" and "volatility s1 = volatility s2"
    and "run_trades rm nows1 s1 r = Inr (trs1, s1', r1)"
    and "run_trades rm nows2 s2 r = Inr (trs2, s2', r2)"
  shows "map pvs trs1 = map pvs trs2 \<and> price s1' = price s2' \<and> r1 = r2"
  using assms
proof (induction nows1 nows2 arbitrary: s1 s2 r trs1 trs2 rule: list_induct2)
  case Nil
  then show ?case by simp
next
  case (Cons n1 ns1 n2 ns2)
  from Cons.prems(4) obtain t1 a1 q1 ts1 where
    step1: "next_trade rm n1 s1 r = Inr (t1, a1, q1)"
    and rest1: "run_trades rm ns1 a1 q1 = Inr (ts1, s1', r1)"
    and trs1: "trs1 = t1 # ts1"
    by (auto split: sum.splits prod.splits)
  from Cons.prems(5) obtain t2 a2 q2 ts2 where
    step2: "next_trade rm n2 s2 r = Inr (t2, a2, q2)"
    and rest2: "run_trades rm ns2 a2 q2 = Inr (ts2, s2', r2)"
    and trs2: "trs2 = t2 # ts2"
    by (auto split: sum.splits prod.splits)
  have same: "pvs t1 = pvs t2" "price a1 = price a2" "volatility a1 = volatility a2" "q1 = q2"
    using next_trade_same_draws[OF step1 step2 Cons.prems(2,3)] by simp_all
  have sym: "symbol a1 = symbol a2"
    using next_trade_fields(6)[OF step1] next_trade_fields(6)[OF step2] Cons.prems(1) by simp
  have "map pvs ts1 = map pvs ts2 \<and> price s1' = price s2' \<and> r1 = r2"
    using Cons.IH[OF sym same(2,3)] rest1 rest2 same(4) by simp
  then show ?case using trs1 trs2 same(1) by simp
qed

text \<open>
  Two runs of two calls from generator state 0: different clock readings, counters
  1000000 and 5000000, the same prices, volumes and sides.
\<close>

theorem run_trades_deterministic_witness:
  "run_trades (scripted_rm 1 1) [''t'', ''u'']
     \<lparr>symbol = ''BTC/USD'', price = Fin 45000, volatility = Fin (2 / 10000), trade_id = 1000000\<rparr> 0
   = Inr ([\<lparr>rec_exchange_time = ''t'', rec_symbol = ''BTC/USD'', rec_price = Fin 45009,
             rec_volume = Fin (1 / 10), rec_trade_id = 1000001, rec_side = ''buy''\<rparr>,
           \<lparr>rec_exchange_time = ''u'', rec_symbol = ''BTC/USD'', rec_price = Fin (450180018 / 10000),
             rec_volume = Fin (1 / 10), rec_trade_id = 1000002, rec_side = ''sell''\<rparr>],
          \<lparr>symbol = ''BTC/USD'', price = Fin (450180018 / 10000), volatility = Fin (2 / 10000),
            trade_id = 1000002\<rparr>, 6)
   \<and> run_trades (scripted_rm 1 1) [''v'', ''w'']
     \<lparr>symbol = ''BTC/USD'', price = Fin 45000, volatility = Fin (2 / 10000), trade_id = 5000000\<rparr> 0
   = Inr ([\<lparr>rec_exchange_time = ''v'', rec_symbol = ''BTC/USD'', rec_price = Fin 45009,
             rec_volume = Fin (1 / 10), rec_trade_id = 5000001, rec_side = ''buy''\<rparr>,
           \<lparr>rec_exchange_time = ''w'', rec_symbol = ''BTC/USD'', rec_price = Fin (450180018 / 10000),
             rec_volume = Fin (1 / 10), rec_trade_id = 5000002, rec_side = ''sell''\<rparr>],
          \<lparr>symbol = ''BTC/USD'', price = Fin (450180018 / 10000), volatility = Fin (2 / 10000),
            trade_id = 5000002\<rparr>, 6)
   \<and> map pvs
       [\<lparr>rec_exchange_time = ''t'', rec_symbol = ''BTC/USD'', rec_price = Fin 45009,
             rec_volume = Fin (1 / 10), rec_trade_id = 1000001, rec_side = ''buy''\<rparr>,
        \<lparr>rec_exchange_time = ''u'', rec_symbol = ''BTC/USD'', rec_price = Fin (450180018 / 10000),
             rec_volume = Fin (1 / 10), rec_trade_id = 1000002, rec_side = ''sell''\<rparr>]
     = map pvs
       [\<lparr>rec_exchange_time = ''v'', rec_symbol = ''BTC/USD'', rec_price = Fin 45009,
             rec_volume = Fin (1 / 10), rec_trade_id = 5000001, rec_side = ''buy''\<rparr>,
        \<lparr>rec_exchange_time = ''w'', rec_symbol = ''BTC/USD'', rec_price = Fin (450180018 / 10000),
             rec_volume = Fin (1 / 10), rec_trade_id = 5000002, rec_side = ''sell''\<rparr>]"
proof -
  have run1: "run_trades (scripted_rm 1 1) [''t'', ''u'']
     \<lparr>symbol = ''BTC/USD'', price = Fin 45000, volatility = Fin (2 / 10000), trade_id = 1000000\<rparr> 0
   = Inr ([\<lparr>rec_exchange_time = ''t'', rec_symbol = ''BTC/USD'', rec_price = Fin 45009,
             rec_volume = Fin (1 / 10), rec_trade_id = 1000001, rec_side = ''buy''\<rparr>,
           \<lparr>rec_exchange_time = ''u'', rec_symbol = ''BTC/USD'', rec_price = Fin (450180018 / 10000),
             rec_volume = Fin (1 / 10), rec_trade_id = 1000002, rec_side = ''sell''\<rparr>],
          \<lparr>symbol = ''BTC/USD'', price = Fin (450180018 / 10000), volatility = Fin (2 / 10000),
            trade_id = 1000002\<rparr>, 6)"
    by (simp add: next_trade_def scripted_rm_def py_choice_def py_max_def
        round_half_even_def Let_def)
  have run2: "run_trades (scripted_rm 1 1) [''v'', ''w'']
     \<lparr>symbol = ''BTC/USD'', price = Fin 45000, volatility = Fin (2 / 10000), trade_id = 5000000\<rparr> 0
   = Inr ([\<lparr>rec_exchange_time = ''v'', rec_symbol = ''BTC/USD'', rec_price = Fin 45009,
             rec_volume = Fin (1 / 10), rec_trade_id = 5000001, rec_side = ''buy''\<rparr>,
           \<lparr>rec_exchange_time = ''w'', rec_symbol = ''BTC/USD'', rec_price = Fin (450180018 / 10000),
             rec_volume = Fin (1 / 10), rec_trade_id = 5000002, rec_side = ''sell''\<rparr>],
          \<lparr>symbol = ''BTC/USD'', price = Fin (450180018 / 10000), volatility = Fin (2 / 10000),
            trade_id = 5000002\<rparr>, 6)"
    by (simp add: next_trade_def scripted_rm_def py_choice_def py_max_def
        round_half_even_def Let_def)
  have len: "length [''t'', ''u''] = length [''v'', ''w'']" by simp
  note same = run_trades_deterministic[OF len _ _ _ run1 run2]
  from same[THEN conjunct1] run1 run2 show ?thesis by simp
qed

section \<open>Properties of create_simulators\<close>

lemma create_simulators_loop_lookup:
  assumes "s \<in> set symbols \<or> (\<exists>sim. map_of simulators s = Some sim \<and> symbol sim = s
      \<and> volatility sim = default_volatility
      \<and> (case map_of initial_prices s of Some p \<Rightarrow> price sim = p
          | None \<Rightarrow> (\<exists>r'. price sim = fst (uniform rm (Fin 10) (Fin 1000) r'))))"
  shows "\<exists>sim. map_of (fst (create_simulators_loop rm symbols simulators r)) s = Some sim
      \<and> symbol sim = s \<and> volatility sim = default_volatility
      \<and> (case map_of initial_prices s of Some p \<Rightarrow> price sim = p
          | None \<Rightarrow> (\<exists>r'. price sim = fst (uniform rm (Fin 10) (Fin 1000) r')))"
  using assms
proof (induction symbols arbitrary: simulators r)
  case Nil
  then show ?case by simp
next
  case (Cons x xs)
  obtain u r1 where u: "uniform rm (Fin 10) (Fin 1000) r = (u, r1)"
    by (cases "uniform rm (Fin 10) (Fin 1000) r")
  let ?p = "case map_of initial_prices x of Some v \<Rightarrow> v | None \<Rightarrow> u"
  obtain sim r2 where init: "PriceSimulator_init rm x ?p default_volatility r1 = (sim, r2)"
    by (cases "PriceSimulator_init rm x ?p default_volatility r1")
  have sim: "symbol sim = x" "volatility sim = default_volatility" "price sim = ?p"
    using init by (auto simp: PriceSimulator_init_def split: prod.splits)
  have unfold: "create_simulators_loop rm (x # xs) simulators r
      = create_simulators_loop rm xs (AList.update x sim simulators) r2"
    using u init by simp
  have good_x: "case map_of initial_prices x of Some p \<Rightarrow> price sim = p
          | None \<Rightarrow> (\<exists>r'. price sim = fst (uniform rm (Fin 10) (Fin 1000) r'))"
    using sim(3) u by (auto split: option.splits intro: exI[of _ r])
  have "s \<in> set xs \<or> (\<exists>sim'. map_of (AList.update x sim simulators) s = Some sim' \<and> symbol sim' = s
      \<and> volatility sim' = default_volatility
      \<and> (case map_of initial_prices s of Some p \<Rightarrow> price sim' = p
          | None \<Rightarrow> (\<exists>r'. price sim' = fst (uniform rm (Fin 10) (Fin 1000) r'))))"
  proof (cases "s = x")
    case True
    then show ?thesis using sim(1,2) good_x by (simp add: update_conv')
  next
    case False
    then show ?thesis using Cons.prems by (auto simp: update_conv')
  qed
  from Cons.IH[OF this] show ?case unfolding unfold .
qed

text \<open>
  C7. For every symbol of the list, \<open>create_simulators\<close> leaves under that key a
  simulator of that symbol with the default volatility whose price is the table's price
  when the symbol is in the table, and otherwise a result of \<open>random.uniform(10, 1000)\<close>,
  which lies in \<open>[10, 1000]\<close> when \<open>uniform\<close> keeps to its bounds. The table gives
  45000.0 for BTC/USD.
\<close>

theorem create_simulators_initial_price:
  assumes "s \<in> set symbols"
  shows "\<exists>sim. map_of (fst (create_simulators rm symbols r)) s = Some sim
      \<and> symbol sim = s \<and> volatility sim = default_volatility
      \<and> (case map_of initial_prices s of
            Some p \<Rightarrow> price sim = p
          | None \<Rightarrow> (\<exists>r'. price sim = fst (uniform rm (Fin 10) (Fin 1000) r'))
              \<and> (uniform_in_range rm \<longrightarrow> fle (Fin 10) (price sim) \<and> fle (price sim) (Fin 1000)))
      \<and> map_of initial_prices ''BTC/USD'' = Some (Fin 45000)"
proof -
  obtain sim where sim: "map_of (fst (create_simulators rm symbols r)) s = Some sim"
    "symbol sim = s" "volatility sim = default_volatility"
    "case map_of initial_prices s of Some p \<Rightarrow> price sim = p
          | None \<Rightarrow> (\<exists>r'. price sim = fst (uniform rm (Fin 10) (Fin 1000) r'))"
    using create_simulators_loop_lookup[of s symbols "[]" rm r] assms
    unfolding create_simulators_def by blast
  have range: "uniform_in_range rm \<Longrightarrow>
      fle (Fin 10) (fst (uniform rm (Fin 10) (Fin 1000) r'))
      \<and> fle (fst (uniform rm (Fin 10) (Fin 1000) r')) (Fin 1000)" for r'
  proof -
    assume "uniform_in_range rm"
    then have "(10::real) \<le> 1000 \<longrightarrow>
        (\<exists>x. fst (uniform rm (Fin 10) (Fin 1000) r') = Fin x \<and> 10 \<le> x \<and> x \<le> 1000)"
      unfolding uniform_in_range_def by blast
    then obtain x where "fst (uniform rm (Fin 10) (Fin 1000) r') = Fin x" "10 \<le> x" "x \<le> 1000"
      by auto
    then show ?thesis by simp
  qed
  have btc: "map_of initial_prices ''BTC/USD'' = Some (Fin 45000)"
    by (simp add: initial_prices_def)
  show ?thesis using sim range btc by (auto split: option.splits)
qed

lemma uniform_in_range_scripted: "uniform_in_range (scripted_rm z lv)"
  unfolding uniform_in_range_def
proof (intro allI impI)
  fix a b :: real and r :: nat
  assume "a \<le> b"
  then have "a \<le> (a + b) * (1 / 2) \<and> (a + b) * (1 / 2) \<le> b" by simp
  then show "\<exists>x. fst (uniform (scripted_rm z lv) (Fin a) (Fin b) r) = Fin x \<and> a \<le> x \<and> x \<le> b"
    by (intro exI[of _ "(a + b) * (1 / 2)"]) (simp add: scripted_rm_def)
qed

text \<open>
  The list BTC/USD, FOO/USD: FOO/USD is not in the table and gets the scripted draw 505,
  BTC/USD gets 45000.
\<close>

theorem create_simulators_initial_price_witness:
  "''FOO/USD'' \<in> set [''BTC/USD'', ''FOO/USD'']
   \<and> uniform_in_range (scripted_rm 1 1)
   \<and> create_simulators (scripted_rm 1 1) [''BTC/USD'', ''FOO/USD''] 0
     = ([(''BTC/USD'', \<lparr>symbol = ''BTC/USD'', price = Fin 45000, volatility = Fin (2 / 10000),
           trade_id = 1000001\<rparr>),
         (''FOO/USD'', \<lparr>symbol = ''FOO/USD'', price = Fin 505, volatility = Fin (2 / 10000),
           trade_id = 1000003\<rparr>)], 4)
   \<and> map_of initial_prices ''FOO/USD'' = None
   \<and> fle (Fin 10) (Fin 505) \<and> fle (Fin 505) (Fin 1000)
   \<and> map_of initial_prices ''BTC/USD'' = Some (Fin 45000)"
proof -
  have mem: "''FOO/USD'' \<in> set [''BTC/USD'', ''FOO/USD'']" by simp
  have sims: "create_simulators (scripted_rm 1 1) [''BTC/USD'', ''FOO/USD''] 0
     = ([(''BTC/USD'', \<lparr>symbol = ''BTC/USD'', price = Fin 45000, volatility = Fin (2 / 10000),
           trade_id = 1000001\<rparr>),
         (''FOO/USD'', \<lparr>symbol = ''FOO/USD'', price = Fin 505, volatility = Fin (2 / 10000),
           trade_id = 1000003\<rparr>)], 4)"
    by (simp add: create_simulators_def initial_prices_def PriceSimulator_init_def
        default_volatility_def scripted_rm_def)
  have absent: "map_of initial_prices ''FOO/USD'' = None"
    by (simp add: initial_prices_def)
  from create_simulators_initial_price[OF mem, of "scripted_rm 1 1" 0]
  obtain sim where sim:
    "map_of (fst (create_simulators (scripted_rm 1 1) [''BTC/USD'', ''FOO/USD''] 0)) ''FOO/USD''
       = Some sim"
    "uniform_in_range (scripted_rm 1 1) \<longrightarrow> fle (Fin 10) (price sim) \<and> fle (price sim) (Fin 1000)"
    "map_of initial_prices ''BTC/USD'' = Some (Fin 45000)"
    unfolding absent by auto
  have "price sim = Fin 505" using sim(1) unfolding sims by auto
  then show ?thesis
    using sim(2,3) mem sims absent uniform_in_range_scripted[of 1 1] by simp
qed

section \<open>Properties of the driver\<close>











text \<open>
  C8. When the connection to Kafka fails, \<open>main\<close> prints the failure and returns: the
  trace holds the start-up lines and the two lines of the report, no record is printed or
  sent, the clock was never read by \<open>next_trade\<close>, and the simulators and the generator
  are as \<open>create_simulators\<close> left them.
\<close>

theorem main_connect_failure:
  assumes "\<not> arg_dry_run a" and "kafka (arg_broker a) = KafkaError e"
  shows "\<exists>w. main rm utcnow kafka a r = Some (Returned, w)
      \<and> w_trace w = [Print Starting, Print (Broker (arg_broker a)), Print (Topic (arg_topic a)),
           Print (Symbols (map strip (split_comma (arg_symbols a)))), Print (Rate (arg_rate a)),
           Print Blank, Print (Connect_failed e), Print Make_sure]
      \<and> printed_trades (w_trace w) = []
      \<and> filter touches_sink (w_trace w) = []
      \<and> w_clock_reads w = 0
      \<and> (w_simulators w, w_rng w) = create_simulators rm (map strip (split_comma (arg_symbols a))) r"
proof -
  obtain sims r1 where
    cs: "create_simulators rm (map strip (split_comma (arg_symbols a))) r = (sims, r1)"
    by (cases "create_simulators rm (map strip (split_comma (arg_symbols a))) r")
  show ?thesis using assms cs by (simp add: main_def emit_def)
qed



text \<open>A run whose connection raises NoBrokersAvailable.\<close>

theorem main_connect_failure_witness:
  "\<not> arg_dry_run \<lparr>arg_broker = ''localhost:9093'', arg_topic = ''trades'',
        arg_symbols = ''BTC/USD, FOO/USD'', arg_rate = Fin 100, arg_count = 2,
        arg_dry_run = False\<rparr>
   \<and> main (scripted_rm 1 1) (\<lambda>k. ''t'') (\<lambda>b. KafkaError ''NoBrokersAvailable'')
      \<lparr>arg_broker = ''localhost:9093'', arg_topic = ''trades'',
        arg_symbols = ''BTC/USD, FOO/USD'', arg_rate = Fin 100, arg_count = 2,
        arg_dry_run = False\<rparr> 0
     = Some (Returned,
        \<lparr>w_simulators =
           [(''BTC/USD'', \<lparr>symbol = ''BTC/USD'', price = Fin 45000,
               volatility = Fin (2 / 10000), trade_id = 1000001\<rparr>),
            (''FOO/USD'', \<lparr>symbol = ''FOO/USD'', price = Fin 505,
               volatility = Fin (2 / 10000), trade_id = 1000003\<rparr>)],
         w_rng = 4, w_clock_reads = 0,
         w_trace =
           [Print Starting, Print (Broker ''localhost:9093''), Print (Topic ''trades''),
            Print (Symbols [''BTC/USD'', ''FOO/USD'']), Print (Rate (Fin 100)), Print Blank,
            Print (Connect_failed ''NoBrokersAvailable''), Print Make_sure]\<rparr>)"
proof -
  let ?a = "\<lparr>arg_broker = ''localhost:9093'', arg_topic = ''trades'',
        arg_symbols = ''BTC/USD, FOO/USD'', arg_rate = Fin 100, arg_count = 2,
        arg_dry_run = False\<rparr>"
  have wet: "\<not> arg_dry_run ?a" by simp
  have fails: "(\<lambda>b. KafkaError ''NoBrokersAvailable'') (arg_broker ?a)
      = KafkaError ''NoBrokersAvailable''" by simp
  have syms: "map strip (split_comma (arg_symbols ?a)) = [''BTC/USD'', ''FOO/USD'']"
    by (simp add: strip_def is_space_def)
  have sims: "create_simulators (scripted_rm 1 1) [''BTC/USD'', ''FOO/USD''] 0
     = ([(''BTC/USD'', \<lparr>symbol = ''BTC/USD'', price = Fin 45000, volatility = Fin (2 / 10000),
           trade_id = 1000001\<rparr>),
         (''FOO/USD'', \<lparr>symbol = ''FOO/USD'', price = Fin 505, volatility = Fin (2 / 10000),
           trade_id = 1000003\<rparr>)], 4)"
    by (simp add: create_simulators_def initial_prices_def PriceSimulator_init_def
        default_volatility_def scripted_rm_def)
  from main_connect_failure[OF wet fails, of "scripted_rm 1 1" "\<lambda>k. ''t''" 0]
  obtain w where w: "main (scripted_rm 1 1) (\<lambda>k. ''t'') (\<lambda>b. KafkaError ''NoBrokersAvailable'') ?a 0
        = Some (Returned, w)"
    "w_trace w = [Print Starting, Print (Broker ''localhost:9093''), Print (Topic ''trades''),
            Print (Symbols [''BTC/USD'', ''FOO/USD'']), Print (Rate (Fin 100)), Print Blank,
            Print (Connect_failed ''NoBrokersAvailable''), Print Make_sure]"
    "w_clock_reads w = 0"
    "(w_simulators w, w_rng w) = create_simulators (scripted_rm 1 1) [''BTC/USD'', ''FOO/USD''] 0"
    unfolding syms by auto
  have "w = \<lparr>w_simulators =
           [(''BTC/USD'', \<lparr>symbol = ''BTC/USD'', price = Fin 45000,
               volatility = Fin (2 / 10000), trade_id = 1000001\<rparr>),
            (''FOO/USD'', \<lparr>symbol = ''FOO/USD'', price = Fin 505,
               volatility = Fin (2 / 10000), trade_id = 1000003\<rparr>)],
         w_rng = 4, w_clock_reads = 0,
         w_trace =
           [Print Starting, Print (Broker ''localhost:9093''), Print (Topic ''trades''),
            Print (Symbols [''BTC/USD'', ''FOO/USD'']), Print (Rate (Fin 100)), Print Blank,
            Print (Connect_failed ''NoBrokersAvailable''), Print Make_sure]\<rparr>"
    using w(2,3,4) unfolding sims by (cases w) simp
  then show ?thesis using w(1) by simp
qed

end
